theory Spec2Isabelle
  imports Main "HOL-Library.Word"
begin

section \<open>Python values, exceptions and the environment of the handler\<close>

text \<open>
  The handler of \<^verbatim>\<open>container/model_handler.py\<close> is a class with four mutable
  attributes and a module-level instance \<^verbatim>\<open>_service\<close>. Its methods are embedded
  as functions that take the handler and return the updated handler together with either
  the raised exception (\<open>Inl\<close>) or the returned value (\<open>Inr\<close>). A method that raises
  keeps the attribute updates made before the \<^verbatim>\<open>raise\<close>, as the Python object does.
  Calls to \<^verbatim>\<open>logging\<close> do not influence control flow or results and are left out.
\<close>

datatype pyerror =
    IndexError
  | TypeError
  | AttributeError
  | KeyError string
  | RuntimeError string
  | MemoryError
  | UnboundLocalError string
  | UnicodeDecodeError
  | LookupError
  | JSONDecodeError
  | OSError

text \<open>A parsed JSON document, as \<^verbatim>\<open>json.load\<close> returns it (an object keeps its items).\<close>

datatype json =
    JNull
  | JBool bool
  | JInt int
  | JStr string
  | JArr "json list"
  | JObj "(string \<times> json) list"

text \<open>
  The part of the file system the handler looks at: the names \<^verbatim>\<open>glob\<close> sees in a
  directory (in the order the operating system lists them), \<^verbatim>\<open>os.path.isfile\<close>, and
  the outcome of \<^verbatim>\<open>open\<close> followed by \<^verbatim>\<open>json.load\<close> on a path.
\<close>

record filesystem =
  listdir :: "string \<Rightarrow> string list"
  isfile :: "string \<Rightarrow> bool"
  load_json :: "string \<Rightarrow> pyerror + json"

record server_context =
  system_properties :: "string \<rightharpoonup> string"

record handler =
  initialized :: bool
  model :: "string option"
  model_type :: "string option"
  model_params :: "json option"

text \<open>\<^verbatim>\<open>ModelHandler.__init__\<close>\<close>

definition new_handler :: handler where
  "new_handler = \<lparr>initialized = False, model = None, model_type = None, model_params = None\<rparr>"

subsection \<open>Library functions on strings and paths\<close>

text \<open>\<^verbatim>\<open>"{}".format(x)\<close> for an attribute that is \<^verbatim>\<open>None\<close> or a \<^verbatim>\<open>str\<close>.\<close>

definition py_format :: "string option \<Rightarrow> string" where
  "py_format x = (case x of None \<Rightarrow> ''None'' | Some s \<Rightarrow> s)"

definition startswith :: "string \<Rightarrow> string \<Rightarrow> bool" where
  "startswith s p = (take (length p) s = p)"

definition endswith :: "string \<Rightarrow> string \<Rightarrow> bool" where
  "endswith s p = (length p \<le> length s \<and> drop (length s - length p) s = p)"

text \<open>\<^verbatim>\<open>os.path.join(a, b)\<close> on POSIX.\<close>

definition os_path_join :: "string \<Rightarrow> string \<Rightarrow> string" where
  "os_path_join a b =
     (if startswith b ''/'' then b
      else if a = [] \<or> endswith a ''/'' then a @ b
      else a @ ''/'' @ b)"

text \<open>\<^verbatim>\<open>os.path.basename(p)\<close>: what follows the last slash.\<close>

definition os_path_basename :: "string \<Rightarrow> string" where
  "os_path_basename p = rev (takeWhile (\<lambda>c. c \<noteq> CHR ''/'') (rev p))"

text \<open>\<^verbatim>\<open>s.split(sep)[0]\<close> for a non-empty \<^verbatim>\<open>sep\<close>: what precedes its first occurrence.\<close>

fun split_first :: "string \<Rightarrow> string \<Rightarrow> string" where
  "split_first sep [] = []"
| "split_first sep (c # cs) =
     (if startswith (c # cs) sep then [] else c # split_first sep cs)"

text \<open>
  \<^verbatim>\<open>glob.glob(dir + "/*" + suffix)\<close>: the entries of the directory whose name ends
  with the suffix, hidden names (a leading dot) excluded as \<^verbatim>\<open>glob\<close> does for a
  pattern that starts with a star, each joined to the directory. A directory that does
  not exist lists as empty. The directory name is taken to hold no pattern character.
\<close>

definition glob_suffix :: "filesystem \<Rightarrow> string \<Rightarrow> string \<Rightarrow> string list" where
  "glob_suffix fs dir sfx =
     map (os_path_join dir)
       (filter (\<lambda>n. endswith n sfx \<and> (startswith n ''.'' = False)) (listdir fs dir))"

section \<open>Initialization\<close>

definition sym_file_suffix :: string where
  "sym_file_suffix = ''-params.json''"

text \<open>
  \<^verbatim>\<open>get_model_files_prefix\<close>: the first match of the glob, indexed with \<^verbatim>\<open>[0]\<close>
  (an \<^verbatim>\<open>IndexError\<close> on an empty result), its base name cut at the suffix. The
  directory is formatted into the pattern, so \<^verbatim>\<open>None\<close> reads as the directory
  \<^verbatim>\<open>"None"\<close>.
\<close>

definition get_model_files_prefix :: "filesystem \<Rightarrow> string option \<Rightarrow> pyerror + string" where
  "get_model_files_prefix fs model_dir =
     (case glob_suffix fs (py_format model_dir) sym_file_suffix of
        [] \<Rightarrow> Inl IndexError
      | checkpoint_prefix_filename # _ \<Rightarrow>
          Inr (split_first sym_file_suffix (os_path_basename checkpoint_prefix_filename)))"

definition missing_file :: "string \<Rightarrow> pyerror" where
  "missing_file p = RuntimeError (''Missing '' @ p @ '' file.'')"

definition not_supported :: "string option \<Rightarrow> pyerror" where
  "not_supported mt = RuntimeError (''Model '' @ py_format mt @ '' not supported!'')"

text \<open>
  \<^verbatim>\<open>read_model_params\<close>. \<^verbatim>\<open>os.path.join(None, ...)\<close> raises a \<^verbatim>\<open>TypeError\<close>.
\<close>

definition read_model_params ::
  "filesystem \<Rightarrow> handler \<Rightarrow> string option \<Rightarrow> string \<Rightarrow> handler \<times> (pyerror + unit)" where
  "read_model_params fs h model_dir checkpoint_prefix =
     (case model_dir of
        None \<Rightarrow> (h, Inl TypeError)
      | Some d \<Rightarrow>
          (let params_file_path = os_path_join d (checkpoint_prefix @ ''-'' @ ''params.json'')
           in if isfile fs params_file_path
              then (case load_json fs params_file_path of
                      Inl e \<Rightarrow> (h, Inl e)
                    | Inr j \<Rightarrow> (h\<lparr>model_params := Some j\<rparr>, Inr ()))
              else (h, Inl (missing_file params_file_path))))"

definition supported :: "string option \<Rightarrow> bool" where
  "supported mt = (mt = Some ''TopicalPageRank'' \<or> mt = Some ''DocSim'')"

text \<open>The body of the \<^verbatim>\<open>try\<close> block of \<^verbatim>\<open>initialize\<close> (lines 79 to 85).\<close>

definition load_model ::
  "filesystem \<Rightarrow> handler \<Rightarrow> string option \<Rightarrow> string \<Rightarrow> handler \<times> (pyerror + unit)" where
  "load_model fs h model_dir checkpoint_prefix =
     (if supported (model_type h)
      then (case model_dir of
              None \<Rightarrow> (h, Inl TypeError)
            | Some d \<Rightarrow>
                (let m = os_path_join d (checkpoint_prefix @ ''-'' @ ''model'');
                     h' = h\<lparr>model := Some m\<rparr>
                 in if isfile fs m then (h', Inr ()) else (h', Inl (missing_file m))))
      else (h, Inl (not_supported (model_type h))))"

text \<open>
  \<^verbatim>\<open>initialize\<close>: the flag is set first; the prefix lookup and the reading of the
  parameters are outside the \<^verbatim>\<open>try\<close> block, so their exceptions pass unchanged;
  whatever the \<^verbatim>\<open>try\<close> block raises is replaced by a bare \<^verbatim>\<open>MemoryError\<close>.
\<close>

definition initialize :: "filesystem \<Rightarrow> handler \<Rightarrow> server_context \<Rightarrow> handler \<times> (pyerror + unit)" where
  "initialize fs h ctx =
     (let h1 = h\<lparr>initialized := True\<rparr>;
          model_dir = system_properties ctx ''model_dir''
      in case get_model_files_prefix fs model_dir of
           Inl e \<Rightarrow> (h1, Inl e)
         | Inr checkpoint_prefix \<Rightarrow>
             (let h2 = h1\<lparr>model_type := Some checkpoint_prefix\<rparr>
              in case read_model_params fs h2 model_dir checkpoint_prefix of
                   (h3, Inl e) \<Rightarrow> (h3, Inl e)
                 | (h3, Inr u) \<Rightarrow>
                     (case load_model fs h3 model_dir checkpoint_prefix of
                        (h4, Inl e) \<Rightarrow> (h4, Inl MemoryError)
                      | (h4, Inr v) \<Rightarrow> (h4, Inr ()))))"

section \<open>Request processing\<close>

subsection \<open>Decoding request bodies\<close>

type_synonym byte = "8 word"

text \<open>A Python \<^verbatim>\<open>str\<close> holding request text: its code points.\<close>

type_synonym pystr = "nat list"

text \<open>
  \<^verbatim>\<open>bytes.decode("utf-8")\<close>, strict: one to four bytes per code point, no overlong
  form, no surrogate, nothing above U+10FFFF; a \<^verbatim>\<open>UnicodeDecodeError\<close> otherwise.
\<close>

definition is_cont :: "byte \<Rightarrow> bool" where
  "is_cont b = (128 \<le> unat b \<and> unat b < 192)"

definition second_ok :: "nat \<Rightarrow> byte \<Rightarrow> bool" where
  "second_ok lead b =
     (let m = unat b
      in if lead = 224 then 160 \<le> m \<and> m < 192
         else if lead = 237 then 128 \<le> m \<and> m < 160
         else if lead = 240 then 144 \<le> m \<and> m < 192
         else if lead = 244 then 128 \<le> m \<and> m < 144
         else 128 \<le> m \<and> m < 192)"

definition emit :: "nat \<Rightarrow> pyerror + pystr \<Rightarrow> pyerror + pystr" where
  "emit c r = (case r of Inl e \<Rightarrow> Inl e | Inr t \<Rightarrow> Inr (c # t))"

fun utf8_decode :: "byte list \<Rightarrow> pyerror + pystr" where
  "utf8_decode [] = Inr []"
| "utf8_decode (b0 # bs) =
     (if unat b0 < 128 then emit (unat b0) (utf8_decode bs)
      else if 194 \<le> unat b0 \<and> unat b0 < 224 then
        (case bs of
           b1 # r \<Rightarrow>
             if is_cont b1
             then emit (unat b0 mod 32 * 64 + unat b1 mod 64) (utf8_decode r)
             else Inl UnicodeDecodeError
         | _ \<Rightarrow> Inl UnicodeDecodeError)
      else if 224 \<le> unat b0 \<and> unat b0 < 240 then
        (case bs of
           b1 # b2 # r \<Rightarrow>
             if second_ok (unat b0) b1 \<and> is_cont b2
             then emit (unat b0 mod 16 * 4096 + unat b1 mod 64 * 64 + unat b2 mod 64)
                    (utf8_decode r)
             else Inl UnicodeDecodeError
         | _ \<Rightarrow> Inl UnicodeDecodeError)
      else if 240 \<le> unat b0 \<and> unat b0 < 245 then
        (case bs of
           b1 # b2 # b3 # r \<Rightarrow>
             if second_ok (unat b0) b1 \<and> is_cont b2 \<and> is_cont b3
             then emit (unat b0 mod 8 * 262144 + unat b1 mod 64 * 4096
                        + unat b2 mod 64 * 64 + unat b3 mod 64)
                    (utf8_decode r)
             else Inl UnicodeDecodeError
         | _ \<Rightarrow> Inl UnicodeDecodeError)
      else Inl UnicodeDecodeError)"

subsection \<open>preprocess\<close>

text \<open>
  A request entry is a dictionary from field names to byte payloads. The values handed
  from one stage to the next are Python objects: a decoded text, or a table whose rows
  pair two texts (what the similarity branch of \<^verbatim>\<open>inference\<close> iterates over).
\<close>

type_synonym request_entry = "string \<rightharpoonup> byte list"

datatype model_input = Text pystr | Frame "(pystr \<times> pystr) list"

text \<open>
  The loop of \<^verbatim>\<open>preprocess\<close>: \<^verbatim>\<open>data.get('body')\<close> is \<^verbatim>\<open>None\<close> for an entry
  without a body, and \<^verbatim>\<open>None.decode\<close> raises an \<^verbatim>\<open>AttributeError\<close>.
\<close>

fun decode_bodies :: "request_entry list \<Rightarrow> pyerror + model_input list" where
  "decode_bodies [] = Inr []"
| "decode_bodies (data # rest) =
     (case data ''body'' of
        None \<Rightarrow> Inl AttributeError
      | Some body \<Rightarrow>
          (case utf8_decode body of
             Inl e \<Rightarrow> Inl e
           | Inr t \<Rightarrow>
               (case decode_bodies rest of
                  Inl e \<Rightarrow> Inl e
                | Inr text_list \<Rightarrow> Inr (Text t # text_list))))"

definition preprocess :: "handler \<Rightarrow> request_entry list \<Rightarrow> pyerror + model_input list" where
  "preprocess h request =
     (if supported (model_type h) then decode_bodies request
      else Inl (not_supported (model_type h)))"

subsection \<open>The third-party libraries\<close>

text \<open>
  \<^verbatim>\<open>pke\<close>, \<^verbatim>\<open>nltk\<close> and \<^verbatim>\<open>gensim\<close> are not part of the repository; the handler is
  embedded over any behaviour of theirs. An extractor object is a value of type \<open>'e\<close>,
  and each method returns the extractor as the call leaves it, or the exception it
  raises. \<open>'s\<close> is the type of scores. Reading \<^verbatim>\<open>stopwords.words\<close> loads the corpus
  and fails with \<open>stopwords_corpus\<close> when it is not installed.
\<close>

record ('e, 's) nlp_library =
  new_extractor :: "'e"
  load_document :: "'e \<Rightarrow> model_input \<Rightarrow> json \<Rightarrow> json \<Rightarrow> pyerror + 'e"
  candidate_selection :: "'e \<Rightarrow> json \<Rightarrow> pyerror + 'e"
  candidate_weighting :: "'e \<Rightarrow> json \<Rightarrow> string list \<Rightarrow> string option \<Rightarrow> pyerror + 'e"
  get_n_best :: "'e \<Rightarrow> json \<Rightarrow> pyerror + ((pystr \<times> 's) list \<times> 'e)"
  stopwords_corpus :: "pyerror option"
  stopwords_words :: "json \<Rightarrow> pyerror + pystr list"
  simple_preprocess :: "pystr \<Rightarrow> pystr list"

datatype 's model_output = Keyphrases "(pystr \<times> 's) list" | Similarities "'s list"

subsection \<open>inference\<close>

text \<open>
  \<^verbatim>\<open>self.model_params[key]\<close>: a \<^verbatim>\<open>KeyError\<close> for a key the object lacks, a
  \<^verbatim>\<open>TypeError\<close> when the parameters are \<^verbatim>\<open>None\<close> or not a JSON object.
\<close>

definition subscript :: "json option \<Rightarrow> string \<Rightarrow> pyerror + json" where
  "subscript params k =
     (case params of
        Some (JObj items) \<Rightarrow>
          (case map_of items k of None \<Rightarrow> Inl (KeyError k) | Some v \<Rightarrow> Inr v)
      | _ \<Rightarrow> Inl TypeError)"

record ranking_locals =
  grammar :: json
  language :: json
  normalization :: json
  window :: json
  max_count :: json

definition pos :: "string list" where
  "pos = [''NOUN'', ''PROPN'', ''ADJ'']"

text \<open>
  The loop of the ranking branch (lines 127 to 142). The extractor is created before the
  loop and the same object goes through every iteration, so each text is loaded into the
  extractor as the previous text left it.
\<close>

fun ranking_loop ::
  "('e, 's) nlp_library \<Rightarrow> string option \<Rightarrow> ranking_locals \<Rightarrow> 'e \<Rightarrow> model_input list
     \<Rightarrow> pyerror + 's model_output list" where
  "ranking_loop lib lda_model v extractor [] = Inr []"
| "ranking_loop lib lda_model v extractor (text_input # rest) =
     (case load_document lib extractor text_input (language v) (normalization v) of
        Inl e \<Rightarrow> Inl e
      | Inr e1 \<Rightarrow>
     (case candidate_selection lib e1 (grammar v) of
        Inl e \<Rightarrow> Inl e
      | Inr e2 \<Rightarrow>
     (case candidate_weighting lib e2 (window v) pos lda_model of
        Inl e \<Rightarrow> Inl e
      | Inr e3 \<Rightarrow>
     (case get_n_best lib e3 (max_count v) of
        Inl e \<Rightarrow> Inl e
      | Inr (keyphrases, e4) \<Rightarrow>
     (case ranking_loop lib lda_model v e4 rest of
        Inl e \<Rightarrow> Inl e
      | Inr phrases_list \<Rightarrow> Inr (Keyphrases keyphrases # phrases_list))))))"

definition ranking_inference ::
  "('e, 's) nlp_library \<Rightarrow> handler \<Rightarrow> model_input list \<Rightarrow> pyerror + 's model_output list" where
  "ranking_inference lib h model_input =
     (case subscript (model_params h) ''grammar'' of Inl e \<Rightarrow> Inl e | Inr g \<Rightarrow>
     (case subscript (model_params h) ''language'' of Inl e \<Rightarrow> Inl e | Inr l \<Rightarrow>
     (case subscript (model_params h) ''normalization'' of Inl e \<Rightarrow> Inl e | Inr n \<Rightarrow>
     (case subscript (model_params h) ''window'' of Inl e \<Rightarrow> Inl e | Inr w \<Rightarrow>
     (case subscript (model_params h) ''max_count'' of Inl e \<Rightarrow> Inl e | Inr c \<Rightarrow>
        ranking_loop lib (model h)
          \<lparr>grammar = g, language = l, normalization = n, window = w, max_count = c\<rparr>
          (new_extractor lib) model_input)))))"

text \<open>\<^verbatim>\<open>list(string.punctuation)\<close>: the 32 ASCII punctuation characters, one per string.\<close>

definition string_punctuation :: "pystr list" where
  "string_punctuation = map (\<lambda>c. [c]) ([33..<48] @ [58..<65] @ [91..<97] @ [123..<127])"

text \<open>
  The comprehension \<^verbatim>\<open>[w for w in tokens if not w in stoplist and w in self.model.wv.vocab]\<close>.
  \<^verbatim>\<open>self.model\<close> is \<^verbatim>\<open>None\<close> or the path string that \<^verbatim>\<open>initialize\<close> stored, and
  neither has an attribute \<^verbatim>\<open>wv\<close>: the first token outside the stop list raises an
  \<^verbatim>\<open>AttributeError\<close>.
\<close>

fun known_words :: "pystr list \<Rightarrow> pystr list \<Rightarrow> pyerror + pystr list" where
  "known_words stoplist [] = Inr []"
| "known_words stoplist (w # tokens) =
     (if w \<in> set stoplist then known_words stoplist tokens else Inl AttributeError)"

text \<open>
  The rows of one table (lines 150 to 159). After both token lists are filtered,
  \<^verbatim>\<open>self.model.wv.n_similarity\<close> raises the same \<^verbatim>\<open>AttributeError\<close>, so a table with
  a row never yields a score.
\<close>

fun row_similarities ::
  "('e, 's) nlp_library \<Rightarrow> pystr list \<Rightarrow> (pystr \<times> pystr) list \<Rightarrow> pyerror + 's list" where
  "row_similarities lib stoplist [] = Inr []"
| "row_similarities lib stoplist (row # rows) =
     (case known_words stoplist (simple_preprocess lib (fst row)) of
        Inl e \<Rightarrow> Inl e
      | Inr words1 \<Rightarrow>
          (case known_words stoplist (simple_preprocess lib (snd row)) of
             Inl e \<Rightarrow> Inl e
           | Inr words2 \<Rightarrow> Inl AttributeError))"

text \<open>The outer loop (lines 148 to 160); a \<^verbatim>\<open>str\<close> has no \<^verbatim>\<open>iterrows\<close>.\<close>

fun docsim_loop ::
  "('e, 's) nlp_library \<Rightarrow> pystr list \<Rightarrow> model_input list \<Rightarrow> pyerror + 's model_output list" where
  "docsim_loop lib stoplist [] = Inr []"
| "docsim_loop lib stoplist (text_input # rest) =
     (case text_input of
        Text t \<Rightarrow> Inl AttributeError
      | Frame rows \<Rightarrow>
          (case row_similarities lib stoplist rows of
             Inl e \<Rightarrow> Inl e
           | Inr similarities \<Rightarrow>
               (case docsim_loop lib stoplist rest of
                  Inl e \<Rightarrow> Inl e
                | Inr inference \<Rightarrow> Inr (Similarities similarities # inference))))"

text \<open>
  The similarity branch, given the binding of the local variable \<^verbatim>\<open>language\<close> at its
  entry (\<open>None\<close> when nothing has been assigned to it). Line 146 first reads
  \<^verbatim>\<open>stopwords.words\<close>, then the variable.
\<close>

definition docsim_inference ::
  "('e, 's) nlp_library \<Rightarrow> json option \<Rightarrow> model_input list \<Rightarrow> pyerror + 's model_output list" where
  "docsim_inference lib language_local model_input =
     (case stopwords_corpus lib of
        Some e \<Rightarrow> Inl e
      | None \<Rightarrow>
          (case language_local of
             None \<Rightarrow> Inl (UnboundLocalError ''language'')
           | Some l \<Rightarrow>
               (case stopwords_words lib l of
                  Inl e \<Rightarrow> Inl e
                | Inr ws \<Rightarrow> docsim_loop lib (string_punctuation @ ws) model_input)))"

text \<open>
  \<^verbatim>\<open>inference\<close>. \<^verbatim>\<open>language\<close> is a local variable of the method, assigned on the
  ranking branch only (line 120): the similarity branch is entered with it unbound.
\<close>

definition inference ::
  "('e, 's) nlp_library \<Rightarrow> handler \<Rightarrow> model_input list \<Rightarrow> pyerror + 's model_output list" where
  "inference lib h model_input =
     (if model_type h = Some ''TopicalPageRank'' then ranking_inference lib h model_input
      else if model_type h = Some ''DocSim'' then docsim_inference lib None model_input
      else Inl (not_supported (model_type h)))"

subsection \<open>postprocess and handle\<close>

definition postprocess :: "handler \<Rightarrow> 's model_output list \<Rightarrow> pyerror + 's model_output list" where
  "postprocess h inference_output =
     (if supported (model_type h) then Inr inference_output
      else Inl (not_supported (model_type h)))"

text \<open>\<^verbatim>\<open>ModelHandler.handle\<close>\<close>

definition service_handle ::
  "('e, 's) nlp_library \<Rightarrow> handler \<Rightarrow> request_entry list \<Rightarrow> pyerror + 's model_output list" where
  "service_handle lib h data =
     (case preprocess h data of
        Inl e \<Rightarrow> Inl e
      | Inr model_input \<Rightarrow>
          (case inference lib h model_input of
             Inl e \<Rightarrow> Inl e
           | Inr model_out \<Rightarrow> postprocess h model_out))"

text \<open>
  The module-level \<^verbatim>\<open>handle\<close>, with the global \<^verbatim>\<open>_service\<close> passed in and returned.
  The request batch is \<^verbatim>\<open>None\<close> or a list; the result is \<^verbatim>\<open>None\<close> or a list.
\<close>

definition handle ::
  "('e, 's) nlp_library \<Rightarrow> filesystem \<Rightarrow> handler \<Rightarrow> request_entry list option \<Rightarrow> server_context
     \<Rightarrow> handler \<times> (pyerror + 's model_output list option)" where
  "handle lib fs service data ctx =
     (case (if initialized service then (service, Inr ()) else initialize fs service ctx) of
        (service', Inl e) \<Rightarrow> (service', Inl e)
      | (service', Inr u) \<Rightarrow>
          (case data of
             None \<Rightarrow> (service', Inr None)
           | Some d \<Rightarrow>
               (case service_handle lib service' d of
                  Inl e \<Rightarrow> (service', Inl e)
                | Inr out \<Rightarrow> (service', Inr (Some out)))))"

section \<open>Concrete inputs\<close>

text \<open>
  The inputs at which the theorems below are evaluated: the parameters of the ranking
  model, a model directory with a given listing in which every listed name is a regular
  file holding those parameters, and the context of the server.
\<close>

definition example_params :: json where
  "example_params =
     JObj [(''grammar'', JStr ''NP: {<ADJ>*<NOUN|PROPN>}''), (''language'', JStr ''en''),
           (''normalization'', JStr ''stemming''), (''window'', JInt 10),
           (''max_count'', JInt 3)]"

definition directory :: "string list \<Rightarrow> filesystem" where
  "directory names =
     \<lparr>listdir = (\<lambda>d. if d = ''/opt/ml/model'' then names else []),
      isfile = (\<lambda>p. p \<in> set (map (os_path_join ''/opt/ml/model'') names)),
      load_json = (\<lambda>p. Inr example_params)\<rparr>"

definition ctx0 :: server_context where
  "ctx0 = \<lparr>system_properties = [''model_dir'' \<mapsto> ''/opt/ml/model'']\<rparr>"

definition ranking_handler :: handler where
  "ranking_handler =
     \<lparr>initialized = True, model = Some ''/opt/ml/model/TopicalPageRank-model'',
      model_type = Some ''TopicalPageRank'', model_params = Some example_params\<rparr>"

definition docsim_handler :: handler where
  "docsim_handler =
     \<lparr>initialized = True, model = Some ''/opt/ml/model/DocSim-model'',
      model_type = Some ''DocSim'', model_params = Some example_params\<rparr>"

text \<open>
  Two stand-ins for the extraction library. An extractor is the list of the documents
  whose candidates it holds, and the best candidates are those documents with the number
  of documents held as score. With \<open>fresh\<close>, \<^verbatim>\<open>load_document\<close> drops what the
  extractor held; without, it adds the document to it.
\<close>

definition stub_library :: "bool \<Rightarrow> (model_input list, nat) nlp_library" where
  "stub_library fresh =
     \<lparr>new_extractor = [],
      load_document = (\<lambda>e x l n. Inr (if fresh then [x] else e @ [x])),
      candidate_selection = (\<lambda>e g. Inr e),
      candidate_weighting = (\<lambda>e w p m. Inr e),
      get_n_best =
        (\<lambda>e n. Inr (map (\<lambda>d. (case d of Text t \<Rightarrow> t | Frame rows \<Rightarrow> [], length e)) e, e)),
      stopwords_corpus = None,
      stopwords_words = (\<lambda>l. Inr []),
      simple_preprocess = (\<lambda>t. [t])\<rparr>"

section \<open>Properties\<close>

lemmas path_defs = endswith_def startswith_def os_path_join_def os_path_basename_def

lemmas init_defs = initialize_def get_model_files_prefix_def glob_suffix_def
  py_format_def sym_file_suffix_def read_model_params_def load_model_def supported_def
  missing_file_def not_supported_def

text \<open>
  A directory with the parameters and the model artifact of a supported type initializes
  the handler: the model attribute is the path of the artifact.
\<close>

lemma initialize_ranking:
  "initialize (directory [''TopicalPageRank-params.json'', ''TopicalPageRank-model''])
     new_handler ctx0 = (ranking_handler, Inr ())"
  by (simp add: init_defs path_defs directory_def new_handler_def ctx0_def ranking_handler_def)

lemma initialize_docsim:
  "initialize (directory [''DocSim-model'', ''DocSim-params.json'']) new_handler ctx0
     = (docsim_handler, Inr ())"
  by (simp add: init_defs path_defs directory_def new_handler_def ctx0_def docsim_handler_def)

subsection \<open>Unsupported model types\<close>

text \<open>
  Claim C9. Whenever the model type of the handler is neither \<^verbatim>\<open>"TopicalPageRank"\<close> nor
  \<^verbatim>\<open>"DocSim"\<close> (this includes the \<^verbatim>\<open>None\<close> of a handler that was never
  initialized), each of \<^verbatim>\<open>preprocess\<close>, \<^verbatim>\<open>inference\<close> and \<^verbatim>\<open>postprocess\<close> raises
  the unsupported-model error, a \<^verbatim>\<open>RuntimeError\<close> whose message names the model type,
  whatever the argument it is called with.
\<close>

theorem unsupported_model_type_raises:
  assumes "model_type h \<noteq> Some ''TopicalPageRank''" and "model_type h \<noteq> Some ''DocSim''"
  shows "preprocess h request
           = Inl (RuntimeError (''Model '' @ py_format (model_type h) @ '' not supported!''))
       \<and> inference lib h model_input
           = Inl (RuntimeError (''Model '' @ py_format (model_type h) @ '' not supported!''))
       \<and> postprocess h inference_output
           = Inl (RuntimeError (''Model '' @ py_format (model_type h) @ '' not supported!''))"
  using assms
  by (simp add: preprocess_def inference_def postprocess_def supported_def not_supported_def)

theorem unsupported_model_type_raises_witness:
  "preprocess (new_handler\<lparr>model_type := Some ''resnet18''\<rparr>) [[''body'' \<mapsto> [104, 105]]]
      = Inl (RuntimeError ''Model resnet18 not supported!'')
   \<and> inference (stub_library True) (new_handler\<lparr>model_type := Some ''resnet18''\<rparr>)
        [Text [104, 105]]
      = Inl (RuntimeError ''Model resnet18 not supported!'')
   \<and> postprocess (new_handler\<lparr>model_type := Some ''resnet18''\<rparr>)
        [Keyphrases [([104, 105], 1::nat)]]
      = Inl (RuntimeError ''Model resnet18 not supported!'')"
  using unsupported_model_type_raises [of "new_handler\<lparr>model_type := Some ''resnet18''\<rparr>"
      "[[''body'' \<mapsto> [104, 105]]]" "stub_library True" "[Text [104, 105]]"
      "[Keyphrases [([104, 105], 1::nat)]]"]
  by (simp add: new_handler_def py_format_def)

subsection \<open>The similarity branch of inference\<close>

text \<open>
  Claim C2. For a handler in similarity mode, \<^verbatim>\<open>inference\<close> raises on every input,
  the non-empty ones among them, before any row is looked at: reading
  \<^verbatim>\<open>stopwords.words\<close> fails when the corpus is not installed, and otherwise the
  argument \<^verbatim>\<open>language\<close> is an unbound local variable.
\<close>

theorem docsim_inference_always_raises:
  assumes "model_type h = Some ''DocSim''"
  shows "inference lib h model_input =
           Inl (case stopwords_corpus lib of
                  Some e \<Rightarrow> e
                | None \<Rightarrow> UnboundLocalError ''language'')"
  using assms by (simp add: inference_def docsim_inference_def split: option.splits)

theorem docsim_inference_always_raises_witness:
  "model_type docsim_handler = Some ''DocSim''
   \<and> inference (stub_library True) docsim_handler [Frame [([104, 105], [104, 105])]]
       = Inl (UnboundLocalError ''language'')"
  using docsim_inference_always_raises
    [of docsim_handler "stub_library True" "[Frame [([104, 105], [104, 105])]]"]
  by (simp add: docsim_handler_def stub_library_def)

lemma handle_initialized:
  "initialized service \<Longrightarrow>
     handle lib fs service data ctx =
       (service, case data of None \<Rightarrow> Inr None
                 | Some d \<Rightarrow> (case service_handle lib service d of Inl e \<Rightarrow> Inl e | Inr out \<Rightarrow> Inr (Some out)))"
  by (simp add: handle_def split: option.splits sum.splits)

lemma read_model_params_keeps:
  "read_model_params fs h model_dir cp = (h', r) \<Longrightarrow>
     initialized h' = initialized h \<and> model_type h' = model_type h \<and> model h' = model h"
  by (auto simp: read_model_params_def Let_def split: option.splits if_splits sum.splits)

lemma load_model_keeps:
  "load_model fs h model_dir cp = (h', r) \<Longrightarrow>
     initialized h' = initialized h \<and> model_type h' = model_type h \<and> model_params h' = model_params h"
  by (auto simp: load_model_def Let_def split: option.splits if_splits)

lemma initialized_initialize: "initialized (fst (initialize fs h ctx))"
  by (auto simp: initialize_def Let_def split: sum.splits prod.splits
      dest!: read_model_params_keeps load_model_keeps)

subsection \<open>The initialized flag\<close>

text \<open>
  Claim C10. \<^verbatim>\<open>initialize\<close> sets the flag before anything else, so the handler it
  leaves is initialized whether it returned or raised; and the module-level
  \<^verbatim>\<open>handle\<close>, given that handler, does not call \<^verbatim>\<open>initialize\<close> again: whatever
  the file system and the context then are, it returns the same handler and either
  \<^verbatim>\<open>None\<close> (for a batch that is \<^verbatim>\<open>None\<close>) or the outcome of the three stages.
\<close>
theorem failed_initialize_is_not_retried:
  "initialized (fst (initialize fs h ctx))
   \<and> handle lib fs' (fst (initialize fs h ctx)) data ctx' =
        (fst (initialize fs h ctx),
         case data of
           None \<Rightarrow> Inr None
         | Some d \<Rightarrow>
             (case service_handle lib (fst (initialize fs h ctx)) d of
                Inl e \<Rightarrow> Inl e
              | Inr out \<Rightarrow> Inr (Some out)))"
  by (simp add: initialized_initialize handle_initialized)

lemma initialize_empty:
  "initialize (directory []) new_handler ctx0 = (new_handler\<lparr>initialized := True\<rparr>, Inl IndexError)"
  by (simp add: init_defs path_defs directory_def new_handler_def ctx0_def)

theorem failed_initialize_is_not_retried_witness:
  "snd (initialize (directory []) new_handler ctx0) = Inl IndexError
   \<and> initialized (fst (initialize (directory []) new_handler ctx0))
   \<and> handle (stub_library True)
        (directory [''TopicalPageRank-params.json'', ''TopicalPageRank-model''])
        (fst (initialize (directory []) new_handler ctx0)) (Some [[''body'' \<mapsto> [104, 105]]]) ctx0
      = (new_handler\<lparr>initialized := True\<rparr>, Inl (RuntimeError ''Model None not supported!''))"
  using failed_initialize_is_not_retried [of "directory []" new_handler ctx0 "stub_library True"
      "directory [''TopicalPageRank-params.json'', ''TopicalPageRank-model'']"
      "Some [[''body'' \<mapsto> [104, 105]]]" ctx0]
  unfolding initialize_empty
  by (simp add: service_handle_def preprocess_def supported_def not_supported_def
      py_format_def new_handler_def)

subsection \<open>Failures of the artifact resolution\<close>

text \<open>
  Claim C7. Once the prefix is found and the parameters are read, every exception \<open>e\<close>
  that the \<^verbatim>\<open>try\<close> block of \<^verbatim>\<open>initialize\<close> raises is replaced by the one
  \<^verbatim>\<open>MemoryError\<close>, which carries no argument and so nothing of \<open>e\<close>; the block is not
  run again: \<^verbatim>\<open>initialize\<close> ends with that error, the handler is left initialized,
  and later calls of \<^verbatim>\<open>handle\<close> keep the handler as it is.
\<close>
theorem artifact_failure_is_generic:
  assumes "get_model_files_prefix fs (system_properties ctx ''model_dir'') = Inr cp"
    and "read_model_params fs (h\<lparr>initialized := True, model_type := Some cp\<rparr>)
           (system_properties ctx ''model_dir'') cp = (h3, Inr ())"
    and "load_model fs h3 (system_properties ctx ''model_dir'') cp = (h4, Inl e)"
  shows "initialize fs h ctx = (h4, Inl MemoryError)
       \<and> initialized h4
       \<and> fst (handle lib fs' h4 data ctx') = h4"
proof -
  have i: "initialize fs h ctx = (h4, Inl MemoryError)"
    using assms by (simp add: initialize_def)
  have "initialized h4"
    using initialized_initialize [of fs h ctx] i by simp
  then show ?thesis using i by (simp add: handle_initialized)
qed

lemma initialize_no_artifact:
  "initialize (directory [''TopicalPageRank-params.json'']) new_handler ctx0
     = (ranking_handler, Inl MemoryError)"
  by (simp add: init_defs path_defs directory_def new_handler_def ctx0_def ranking_handler_def)


theorem artifact_failure_is_generic_witness:
  "initialize (directory [''TopicalPageRank-params.json'']) new_handler ctx0
     = (ranking_handler, Inl MemoryError)
   \<and> initialize (directory [''resnet18-params.json'', ''resnet18-model'']) new_handler ctx0
     = (\<lparr>initialized = True, model = None, model_type = Some ''resnet18'',
         model_params = Some example_params\<rparr>, Inl MemoryError)
   \<and> fst (handle (stub_library True)
             (directory [''TopicalPageRank-params.json'', ''TopicalPageRank-model''])
             ranking_handler None ctx0) = ranking_handler"
proof -
  let ?fs1 = "directory [''TopicalPageRank-params.json'']"
  let ?fs2 = "directory [''resnet18-params.json'', ''resnet18-model'']"
  let ?h2 = "\<lparr>initialized = True, model = None, model_type = Some ''resnet18'',
         model_params = Some example_params\<rparr>"
  have a1: "get_model_files_prefix ?fs1 (system_properties ctx0 ''model_dir'') = Inr ''TopicalPageRank''"
    by (simp add: init_defs path_defs directory_def ctx0_def)
  have b1: "read_model_params ?fs1 (new_handler\<lparr>initialized := True, model_type := Some ''TopicalPageRank''\<rparr>)
             (system_properties ctx0 ''model_dir'') ''TopicalPageRank''
            = (ranking_handler\<lparr>model := None\<rparr>, Inr ())"
    by (simp add: init_defs path_defs directory_def ctx0_def new_handler_def ranking_handler_def)
  have c1: "load_model ?fs1 (ranking_handler\<lparr>model := None\<rparr>) (system_properties ctx0 ''model_dir'') ''TopicalPageRank''
            = (ranking_handler, Inl (missing_file ''/opt/ml/model/TopicalPageRank-model''))"
    by (simp add: init_defs path_defs directory_def ctx0_def ranking_handler_def)
  have a2: "get_model_files_prefix ?fs2 (system_properties ctx0 ''model_dir'') = Inr ''resnet18''"
    by (simp add: init_defs path_defs directory_def ctx0_def)
  have b2: "read_model_params ?fs2 (new_handler\<lparr>initialized := True, model_type := Some ''resnet18''\<rparr>)
             (system_properties ctx0 ''model_dir'') ''resnet18'' = (?h2, Inr ())"
    by (simp add: init_defs path_defs directory_def ctx0_def new_handler_def)
  have c2: "load_model ?fs2 ?h2 (system_properties ctx0 ''model_dir'') ''resnet18''
            = (?h2, Inl (not_supported (Some ''resnet18'')))"
    by (simp add: load_model_def supported_def)
  show ?thesis
    using artifact_failure_is_generic [OF a1 b1 c1, of "stub_library True"
        "directory [''TopicalPageRank-params.json'', ''TopicalPageRank-model'']" None ctx0]
      artifact_failure_is_generic [OF a2 b2 c2, of "stub_library True" ?fs2 None ctx0]
    by simp
qed

text \<open>
  Claim C5, as amended. When the prefix derived from the parameters file is neither
  \<^verbatim>\<open>"TopicalPageRank"\<close> nor \<^verbatim>\<open>"DocSim"\<close> and that file is read, \<^verbatim>\<open>initialize\<close>
  fails with the bare \<^verbatim>\<open>MemoryError\<close>, which does not name the model; the handler
  keeps the prefix as its model type and the parameters read.
\<close>
theorem unsupported_prefix_raises_memory_error:
  assumes "system_properties ctx ''model_dir'' = Some d"
    and "get_model_files_prefix fs (Some d) = Inr cp"
    and "cp \<noteq> ''TopicalPageRank''" and "cp \<noteq> ''DocSim''"
    and "isfile fs (os_path_join d (cp @ ''-params.json''))"
    and "load_json fs (os_path_join d (cp @ ''-params.json'')) = Inr j"
  shows "initialize fs h ctx =
           (h\<lparr>initialized := True, model_type := Some cp, model_params := Some j\<rparr>,
            Inl MemoryError)"
  using assms by (simp add: initialize_def read_model_params_def load_model_def supported_def)

theorem unsupported_prefix_raises_memory_error_witness:
  "initialize (directory [''resnet18-params.json'', ''resnet18-model'']) new_handler ctx0 =
     (new_handler\<lparr>initialized := True, model_type := Some ''resnet18'',
        model_params := Some example_params\<rparr>, Inl MemoryError)"
proof -
  let ?fs = "directory [''resnet18-params.json'', ''resnet18-model'']"
  have a: "system_properties ctx0 ''model_dir'' = Some ''/opt/ml/model''"
    by (simp add: ctx0_def)
  have b: "get_model_files_prefix ?fs (Some ''/opt/ml/model'') = Inr ''resnet18''"
    by (simp add: init_defs path_defs directory_def)
  have c: "isfile ?fs (os_path_join ''/opt/ml/model'' (''resnet18'' @ ''-params.json''))"
    by (simp add: path_defs directory_def)
  have d: "load_json ?fs (os_path_join ''/opt/ml/model'' (''resnet18'' @ ''-params.json''))
             = Inr example_params"
    by (simp add: directory_def)
  show ?thesis
    using unsupported_prefix_raises_memory_error [OF a b _ _ c d, of new_handler] by simp
qed

text \<open>
  The claim as stated fails: for a directory holding \<^verbatim>\<open>resnet18-params.json\<close> the error
  is not the unsupported-model error.
\<close>

theorem unsupported_prefix_counterexample:
  "snd (initialize (directory [''resnet18-params.json'', ''resnet18-model'']) new_handler ctx0)
     = Inl MemoryError
   \<and> snd (initialize (directory [''resnet18-params.json'', ''resnet18-model'']) new_handler ctx0)
     \<noteq> Inl (RuntimeError ''Model resnet18 not supported!'')"
  by (simp add: init_defs path_defs directory_def new_handler_def ctx0_def)

text \<open>
  Claim C6, as amended. With the prefix taken from the directory listing: when
  \<^verbatim>\<open><prefix>-params.json\<close> is not a regular file, \<^verbatim>\<open>initialize\<close> fails with the
  missing-file \<^verbatim>\<open>RuntimeError\<close> that names the path; when the parameters are read, the
  type is one of the two supported ones and \<^verbatim>\<open><prefix>-model\<close> is not a regular file,
  it fails with the bare \<^verbatim>\<open>MemoryError\<close>.
\<close>
theorem missing_artifact_errors:
  assumes "system_properties ctx ''model_dir'' = Some d"
    and "get_model_files_prefix fs (Some d) = Inr cp"
  shows "(\<not> isfile fs (os_path_join d (cp @ ''-params.json'')) \<longrightarrow>
            initialize fs h ctx =
              (h\<lparr>initialized := True, model_type := Some cp\<rparr>,
               Inl (RuntimeError (''Missing '' @ os_path_join d (cp @ ''-params.json'') @ '' file.''))))
       \<and> (isfile fs (os_path_join d (cp @ ''-params.json''))
          \<and> load_json fs (os_path_join d (cp @ ''-params.json'')) = Inr j
          \<and> (cp = ''TopicalPageRank'' \<or> cp = ''DocSim'')
          \<and> \<not> isfile fs (os_path_join d (cp @ ''-model'')) \<longrightarrow>
            initialize fs h ctx =
              (h\<lparr>initialized := True, model_type := Some cp, model_params := Some j,
                 model := Some (os_path_join d (cp @ ''-model''))\<rparr>,
               Inl MemoryError))"
  using assms
  by (auto simp: initialize_def read_model_params_def load_model_def supported_def missing_file_def
      Let_def)

theorem missing_artifact_errors_witness:
  "initialize (directory [''a-params.json-params.json'']) new_handler ctx0 =
     (new_handler\<lparr>initialized := True, model_type := Some ''a''\<rparr>,
      Inl (RuntimeError ''Missing /opt/ml/model/a-params.json file.''))
   \<and> initialize (directory [''TopicalPageRank-params.json'']) new_handler ctx0 =
     (ranking_handler, Inl MemoryError)"
proof -
  let ?fs1 = "directory [''a-params.json-params.json'']"
  let ?fs2 = "directory [''TopicalPageRank-params.json'']"
  have a: "system_properties ctx0 ''model_dir'' = Some ''/opt/ml/model''"
    by (simp add: ctx0_def)
  have b1: "get_model_files_prefix ?fs1 (Some ''/opt/ml/model'') = Inr ''a''"
    by (simp add: init_defs path_defs directory_def)
  have b2: "get_model_files_prefix ?fs2 (Some ''/opt/ml/model'') = Inr ''TopicalPageRank''"
    by (simp add: init_defs path_defs directory_def)
  show ?thesis
    using missing_artifact_errors [OF a b1, of new_handler example_params]
      missing_artifact_errors [OF a b2, of new_handler example_params]
    by (simp add: path_defs directory_def new_handler_def ranking_handler_def)
qed

text \<open>
  The claim as stated fails: with the parameters of the ranking model present and its
  artifact absent, the error is not the missing-file error.
\<close>

theorem missing_model_artifact_counterexample:
  "snd (initialize (directory [''TopicalPageRank-params.json'']) new_handler ctx0)
     = Inl MemoryError
   \<and> snd (initialize (directory [''TopicalPageRank-params.json'']) new_handler ctx0)
     \<noteq> Inl (RuntimeError ''Missing /opt/ml/model/TopicalPageRank-model file.'')"
  by (simp add: init_defs path_defs directory_def new_handler_def ctx0_def)

end
